theory Spec2Isabelle
  imports Main
begin

section \<open>gracehttp: graceful shutdown and restart of an HTTP server (server.go)\<close>

subsection \<open>Constants\<close>

definition GRACEFUL_ENVIRON_KEY :: string where
  "GRACEFUL_ENVIRON_KEY = ''IS_GRACEFUL''"

definition GRACEFUL_ENVIRON_STRING :: string where
  "GRACEFUL_ENVIRON_STRING = GRACEFUL_ENVIRON_KEY @ ''=1''"

definition GRACEFUL_LISTENER_FD :: nat where
  "GRACEFUL_LISTENER_FD = 3"

subsection \<open>Data\<close>

text \<open>
  A non-nil Go \<open>error\<close> is represented by its message; \<open>fmt.Errorf("p: %v", err)\<close> is
  the message \<open>p: \<close> followed by the message of \<open>err\<close>. A nil error is \<open>None\<close>.
  A function of this package returns \<open>Ok\<close>, \<open>Err\<close> (a non-nil error result) or
  \<open>Panic\<close> (a run-time panic, which is not a result value).
\<close>

type_synonym error = string

datatype 'a res = Ok 'a | Err error | Panic string

text \<open>
  The dynamic type of a non-nil \<open>net.Listener\<close> held in \<open>srv.listener\<close>: the field is
  assigned only from \<open>net.Listen("tcp", _)\<close>, which yields a \<open>*net.TCPListener\<close>, and from
  \<open>net.FileListener\<close>, which yields a \<open>*net.TCPListener\<close> or a \<open>*net.UnixListener\<close>
  according to the inherited socket. The number identifies the socket.
  \<open>tls.NewListener(inner, config)\<close> keeps its inner listener and the pointer to its
  configuration.
\<close>

datatype listener = TCPListener nat | UnixListener nat

datatype tls_listener = TLSListener "listener option" nat

type_synonym certificate = string

definition zero_certificate :: certificate where
  "zero_certificate = []"

record tls_config =
  Certificates :: "certificate list"
  NextProtos :: "string list option"

definition zero_config :: tls_config where
  "zero_config = \<lparr>Certificates = [], NextProtos = None\<rparr>"

text \<open>The fields of \<open>Server\<close> that the code reads or writes; \<open>TLSConfig\<close> is a pointer.\<close>

record server =
  Addr :: string
  TLSConfig :: "nat option"
  listener :: "listener option"
  tlsListener :: "tls_listener option"
  isGraceful :: bool

record proc_attr =
  Env :: "string list"
  Files :: "nat list"
  Setsid :: bool

text \<open>Calls that leave the process, in the order they are made.\<close>

datatype effect =
    NetListen string
  | NetFileListener nat
  | LoadX509KeyPair string string
  | ListenerFile nat
  | StartProcess string "string list" proc_attr
  | HttpShutdown

text \<open>
  What the operating system and the Go libraries answer. Each answer may depend on the
  calls made so far.
\<close>

record os =
  environ :: "string list"
  args :: "string list"
  net_Listen :: "effect list \<Rightarrow> string \<Rightarrow> error + nat"
  net_FileListener :: "effect list \<Rightarrow> nat \<Rightarrow> error + listener"
  tls_LoadX509KeyPair :: "effect list \<Rightarrow> string \<Rightarrow> string \<Rightarrow> certificate \<times> error option"
  tcp_File :: "effect list \<Rightarrow> nat \<Rightarrow> error + nat"
  syscall_StartProcess :: "effect list \<Rightarrow> string \<Rightarrow> string list \<Rightarrow> proc_attr \<Rightarrow> error + nat"
  http_Shutdown :: "effect list \<Rightarrow> error option"

text \<open>
  Where the two goroutines are. The goroutine that calls \<open>Serve\<close> is inside
  \<open>srv.Server.Serve(l)\<close>, or at the receive \<open>\<leftarrow>srv.shutdownChan\<close> holding the error to
  return, or has returned. The goroutine running \<open>handleSignals\<close> is at the receive
  \<open>sig = \<leftarrow>srv.signalChan\<close> at the top of its \<open>for\<close> loop, or at the send
  \<open>srv.shutdownChan \<leftarrow> true\<close>, or has panicked. \<open>handleSignals\<close> has no \<open>return\<close> and no
  \<open>break\<close>, so there is no other place for it to be.
\<close>

datatype active_listener = Plain "listener option" | Secure tls_listener

datatype main_pc =
    Caller
  | ServerServe active_listener
  | AwaitShutdownChan "error option"
  | Returned "error option"

datatype router_pc = NotStarted | AwaitSignal | SendShutdownChan | Panicked string

record world =
  srv :: server
  heap :: "nat \<Rightarrow> tls_config"
  next_addr :: nat
  trace :: "effect list"
  main :: main_pc
  router :: router_pc
  published :: nat

datatype signal = SIGQUIT | SIGINT | SIGHUP | SIGTERM | OtherSignal nat

subsection \<open>Listener acquisition\<close>

definition getNetListener :: "os \<Rightarrow> string \<Rightarrow> world \<Rightarrow> (error + listener) \<times> world" where
  "getNetListener os addr w =
     (if isGraceful (srv w) then
        (case net_FileListener os (trace w) GRACEFUL_LISTENER_FD of
           Inl err \<Rightarrow> (Inl (''net.FileListener error: '' @ err),
                       w\<lparr>trace := trace w @ [NetFileListener GRACEFUL_LISTENER_FD]\<rparr>)
         | Inr ln \<Rightarrow> (Inr ln, w\<lparr>trace := trace w @ [NetFileListener GRACEFUL_LISTENER_FD]\<rparr>))
      else
        (case net_Listen os (trace w) addr of
           Inl err \<Rightarrow> (Inl (''net.Listen error: '' @ err), w\<lparr>trace := trace w @ [NetListen addr]\<rparr>)
         | Inr s \<Rightarrow> (Inr (TCPListener s), w\<lparr>trace := trace w @ [NetListen addr]\<rparr>)))"

definition InitListener :: "os \<Rightarrow> world \<Rightarrow> (error + listener) \<times> world" where
  "InitListener os w =
     (case listener (srv w) of
        None \<Rightarrow>
          (if Addr (srv w) = [] then (Inl ''listen to nil addr'', w)
           else (case getNetListener os (Addr (srv w)) w of
                   (Inl err, w') \<Rightarrow> (Inl err, w')
                 | (Inr ln, w') \<Rightarrow> (Inr ln, w'\<lparr>srv := (srv w')\<lparr>listener := Some ln\<rparr>\<rparr>)))
      | Some ln \<Rightarrow> (Inr ln, w))"

subsection \<open>Serving\<close>

text \<open>
  \<open>Serve\<close> starts \<open>handleSignals\<close> as a goroutine, which subscribes and waits for a
  signal, and enters \<open>srv.Server.Serve\<close> on the TLS listener if there is one and on the
  plain listener otherwise. What happens from there is the step function below.
\<close>

definition Serve :: "world \<Rightarrow> world" where
  "Serve w =
     w\<lparr>router := AwaitSignal,
       main := ServerServe (case tlsListener (srv w) of
                              Some t \<Rightarrow> Secure t
                            | None \<Rightarrow> Plain (listener (srv w)))\<rparr>"

definition ListenAndServe :: "os \<Rightarrow> world \<Rightarrow> world" where
  "ListenAndServe os w =
     (case InitListener os w of
        (Inl err, w') \<Rightarrow> w'\<lparr>main := Returned (Some err)\<rparr>
      | (Inr ln, w') \<Rightarrow> Serve w')"

definition ListenAndServeTLS :: "os \<Rightarrow> string \<Rightarrow> string \<Rightarrow> world \<Rightarrow> world" where
  "ListenAndServeTLS os certFile keyFile w0 =
     (let fresh = next_addr w0;
          w1 = w0\<lparr>heap := (heap w0)(fresh := zero_config), next_addr := Suc fresh\<rparr>;
          config = (case TLSConfig (srv w1) of Some p \<Rightarrow> p | None \<Rightarrow> fresh);
          w2 = (if NextProtos (heap w1 config) = None
                then w1\<lparr>heap := (heap w1)
                        (config := (heap w1 config)\<lparr>NextProtos := Some [''h2'', ''http/1.1'']\<rparr>)\<rparr>
                else w1);
          w3 = w2\<lparr>heap := (heap w2)
                  (config := (heap w2 config)\<lparr>Certificates := [zero_certificate]\<rparr>)\<rparr>;
          (cert, err) = tls_LoadX509KeyPair os (trace w3) certFile keyFile;
          w4 = w3\<lparr>heap := (heap w3)
                  (config := (heap w3 config)
                     \<lparr>Certificates := (Certificates (heap w3 config))[0 := cert]\<rparr>),
                  trace := trace w3 @ [LoadX509KeyPair certFile keyFile]\<rparr>
      in case err of
           Some e \<Rightarrow> w4\<lparr>main := Returned (Some e)\<rparr>
         | None \<Rightarrow>
             (case InitListener os w4 of
                (Inl e, w5) \<Rightarrow> w5\<lparr>main := Returned (Some e)\<rparr>
              | (Inr ln, w5) \<Rightarrow>
                  Serve (w5\<lparr>srv := (srv w5)
                             \<lparr>tlsListener := Some (TLSListener (listener (srv w5)) config)\<rparr>\<rparr>)))"

subsection \<open>Process handoff\<close>

text \<open>
  \<open>srv.listener.(*net.TCPListener)\<close> is a type assertion with one result: it panics when
  the interface is nil or holds another type.
\<close>

definition getTCPListenerFd :: "os \<Rightarrow> world \<Rightarrow> nat res \<times> world" where
  "getTCPListenerFd os w =
     (case listener (srv w) of
        None \<Rightarrow>
          (Panic ''interface conversion: interface is nil, not *net.TCPListener'', w)
      | Some (UnixListener s) \<Rightarrow>
          (Panic ''interface conversion: net.Listener is *net.UnixListener, not *net.TCPListener'', w)
      | Some (TCPListener s) \<Rightarrow>
          (case tcp_File os (trace w) s of
             Inl err \<Rightarrow> (Err err, w\<lparr>trace := trace w @ [ListenerFile s]\<rparr>)
           | Inr fd \<Rightarrow> (Ok fd, w\<lparr>trace := trace w @ [ListenerFile s]\<rparr>)))"

text \<open>
  The loop of \<open>startNewProcess\<close> over \<open>os.Environ()\<close> and the append after it
  (lines 194 to 200).
\<close>

definition childEnviron :: "string list \<Rightarrow> string list" where
  "childEnviron env =
     foldl (\<lambda>envs value. if value \<noteq> GRACEFUL_ENVIRON_STRING then envs @ [value] else envs)
       [] env
     @ [GRACEFUL_ENVIRON_STRING]"

definition startNewProcess :: "os \<Rightarrow> world \<Rightarrow> nat res \<times> world" where
  "startNewProcess os w =
     (case getTCPListenerFd os w of
        (Panic m, w1) \<Rightarrow> (Panic m, w1)
      | (Err err, w1) \<Rightarrow> (Err (''failed to get socket file descriptor: '' @ err), w1)
      | (Ok listenerFd, w1) \<Rightarrow>
          (let envs = childEnviron (environ os);
               execSpec = \<lparr>Env = envs, Files = [0, 1, 2, listenerFd], Setsid = True\<rparr>
           in case args os of
                [] \<Rightarrow> (Panic ''index out of range [0] with length 0'', w1)
              | a0 # _ \<Rightarrow>
                  (case syscall_StartProcess os (trace w1) a0 (args os) execSpec of
                     Inl err \<Rightarrow>
                       (Err (''failed to forkexec: '' @ err),
                        w1\<lparr>trace := trace w1 @ [StartProcess a0 (args os) execSpec]\<rparr>)
                   | Inr fork \<Rightarrow>
                       (Ok fork,
                        w1\<lparr>trace := trace w1 @ [StartProcess a0 (args os) execSpec]\<rparr>))))"

subsection \<open>Shutdown and signal dispatch\<close>

text \<open>
  \<open>shutdownHTTPServer\<close> up to its send: after a drain without error the goroutine is at
  \<open>srv.shutdownChan \<leftarrow> true\<close>; the channel has no buffer, so the send completes only
  together with a receive.
\<close>

definition shutdownHTTPServer :: "os \<Rightarrow> world \<Rightarrow> world" where
  "shutdownHTTPServer os w =
     (case http_Shutdown os (trace w) of
        Some err \<Rightarrow> w\<lparr>trace := trace w @ [HttpShutdown]\<rparr>
      | None \<Rightarrow> w\<lparr>trace := trace w @ [HttpShutdown], router := SendShutdownChan\<rparr>)"

text \<open>The body of the \<open>for\<close> loop of \<open>handleSignals\<close> once a signal is received.\<close>

definition handleSignal :: "os \<Rightarrow> signal \<Rightarrow> world \<Rightarrow> world" where
  "handleSignal os sig w =
     (if sig = SIGQUIT \<or> sig = SIGINT then shutdownHTTPServer os w
      else if sig = SIGHUP \<or> sig = SIGTERM then
        (case startNewProcess os w of
           (Err err, w') \<Rightarrow> w'
         | (Ok pid, w') \<Rightarrow> shutdownHTTPServer os w'
         | (Panic m, w') \<Rightarrow> w'\<lparr>router := Panicked m\<rparr>)
      else w)"

text \<open>
  One step of the process. A signal is taken when \<open>handleSignals\<close> is at its receive;
  \<open>srv.Server.Serve\<close> returns, which moves \<open>Serve\<close> to its receive on \<open>shutdownChan\<close>;
  the send and the receive on \<open>shutdownChan\<close> complete together. An event that cannot
  happen in the state gives \<open>None\<close>. A panic ends the process.
\<close>

datatype event = Signal signal | ServerServeReturns "error option" | ShutdownChanTransfer

definition crashed :: "world \<Rightarrow> bool" where
  "crashed w = (case router w of Panicked m \<Rightarrow> True | _ \<Rightarrow> False)"

definition step :: "os \<Rightarrow> event \<Rightarrow> world \<Rightarrow> world option" where
  "step os ev w =
     (if crashed w then None
      else case ev of
        Signal sig \<Rightarrow>
          (if router w = AwaitSignal then Some (handleSignal os sig w) else None)
      | ServerServeReturns err \<Rightarrow>
          (case main w of
             ServerServe l \<Rightarrow> Some (w\<lparr>main := AwaitShutdownChan err\<rparr>)
           | _ \<Rightarrow> None)
      | ShutdownChanTransfer \<Rightarrow>
          (case main w of
             AwaitShutdownChan err \<Rightarrow>
               (if router w = SendShutdownChan
                then Some (w\<lparr>main := Returned err, router := AwaitSignal,
                             published := Suc (published w)\<rparr>)
                else None)
           | _ \<Rightarrow> None))"

fun run :: "os \<Rightarrow> event list \<Rightarrow> world \<Rightarrow> world option" where
  "run os [] w = Some w"
| "run os (ev # evs) w = (case step os ev w of None \<Rightarrow> None | Some w' \<Rightarrow> run os evs w')"

subsection \<open>Notions used in the statements\<close>


text \<open>The environments of the processes started in a trace, in order.\<close>

fun spawnEnvs :: "effect list \<Rightarrow> string list list" where
  "spawnEnvs [] = []"
| "spawnEnvs (StartProcess a0 argv attr # es) = Env attr # spawnEnvs es"
| "spawnEnvs (e # es) = spawnEnvs es"

definition returned :: "world \<Rightarrow> bool" where
  "returned w = (case main w of Returned e \<Rightarrow> True | _ \<Rightarrow> False)"

definition serving :: "world \<Rightarrow> bool" where
  "serving w = (case main w of ServerServe l \<Rightarrow> True | AwaitShutdownChan e \<Rightarrow> True | _ \<Rightarrow> False)"

text \<open>
  The address of the \<open>tls.Config\<close> that \<open>ListenAndServeTLS\<close> works on: the caller's when
  \<open>srv.TLSConfig\<close> is not nil, the fresh one otherwise. A pointer held by the server is
  valid when it points to an allocated object.
\<close>

definition tlsConfigPtr :: "world \<Rightarrow> nat" where
  "tlsConfigPtr w = (case TLSConfig (srv w) of Some p \<Rightarrow> p | None \<Rightarrow> next_addr w)"

definition tlsConfigValid :: "world \<Rightarrow> bool" where
  "tlsConfigValid w = (case TLSConfig (srv w) of Some p \<Rightarrow> p < next_addr w | None \<Rightarrow> True)"

text \<open>
  The state of \<open>ListenAndServeTLS\<close> after \<open>tls.LoadX509KeyPair\<close> has returned
  (lines 83 to 93), in closed form.
\<close>

definition tlsLoaded :: "os \<Rightarrow> string \<Rightarrow> string \<Rightarrow> world \<Rightarrow> world" where
  "tlsLoaded os certFile keyFile w =
     w\<lparr>next_addr := Suc (next_addr w),
       heap := ((heap w)(next_addr w := zero_config))
               (tlsConfigPtr w :=
                  \<lparr>Certificates = [fst (tls_LoadX509KeyPair os (trace w) certFile keyFile)],
                   NextProtos =
                     (case NextProtos (((heap w)(next_addr w := zero_config)) (tlsConfigPtr w)) of
                        None \<Rightarrow> Some [''h2'', ''http/1.1'']
                      | Some ps \<Rightarrow> Some ps)\<rparr>),
       trace := trace w @ [LoadX509KeyPair certFile keyFile]\<rparr>"

subsection \<open>Concrete processes\<close>

text \<open>
  An operating system where every call succeeds, and variants of it where one call
  answers otherwise; a server that has not started yet, listening on \<open>:8080\<close>, and
  variants of it. They are the inputs at which the statements below are evaluated.
\<close>

definition os_example :: os where
  "os_example =
     \<lparr>environ = [''HOME=/root''],
      args = [''/bin/server'', ''-v''],
      net_Listen = (\<lambda>h addr. Inr 7),
      net_FileListener = (\<lambda>h fd. Inr (TCPListener 7)),
      tls_LoadX509KeyPair = (\<lambda>h c k. (''pair'', None)),
      tcp_File = (\<lambda>h s. Inr 9),
      syscall_StartProcess = (\<lambda>h a0 argv attr. Inr 4242),
      http_Shutdown = (\<lambda>h. None)\<rparr>"


definition os_spawn_fails :: os where
  "os_spawn_fails =
     os_example\<lparr>syscall_StartProcess := (\<lambda>h a0 argv attr. Inl ''permission denied'')\<rparr>"

definition os_drain_fails :: os where
  "os_drain_fails = os_example\<lparr>http_Shutdown := (\<lambda>h. Some ''close: bad descriptor'')\<rparr>"

definition os_drain_fails_once :: os where
  "os_drain_fails_once =
     os_example\<lparr>http_Shutdown :=
       (\<lambda>h. if HttpShutdown \<in> set h then None else Some ''close: bad descriptor'')\<rparr>"

definition os_unix :: os where
  "os_unix = os_example\<lparr>net_FileListener := (\<lambda>h fd. Inr (UnixListener 7))\<rparr>"

definition os_bad_cert :: os where
  "os_bad_cert =
     os_example\<lparr>tls_LoadX509KeyPair :=
       (\<lambda>h c k. (zero_certificate, Some ''open cert.pem: no such file or directory''))\<rparr>"

definition world_example :: world where
  "world_example =
     \<lparr>srv = \<lparr>Addr = '':8080'', TLSConfig = None, listener = None, tlsListener = None,
             isGraceful = False\<rparr>,
      heap = (\<lambda>a. zero_config), next_addr = 0, trace = [],
      main = Caller, router = NotStarted, published = 0\<rparr>"

definition world_graceful :: world where
  "world_graceful = world_example\<lparr>srv := (srv world_example)\<lparr>isGraceful := True\<rparr>\<rparr>"

definition world_graceful_noaddr :: world where
  "world_graceful_noaddr =
     world_example\<lparr>srv := (srv world_example)\<lparr>Addr := [], isGraceful := True\<rparr>\<rparr>"

definition world_tls :: world where
  "world_tls =
     world_example
       \<lparr>srv := (srv world_example)\<lparr>TLSConfig := Some 0\<rparr>,
        heap := (\<lambda>a. zero_config)
          (0 := \<lparr>Certificates = [], NextProtos = Some [''http/1.1'']\<rparr>,
           1 := \<lparr>Certificates = [''old''], NextProtos = None\<rparr>),
        next_addr := 2\<rparr>"

definition world_tls_noprotos :: world where
  "world_tls_noprotos = world_tls\<lparr>srv := (srv world_tls)\<lparr>TLSConfig := Some 1\<rparr>\<rparr>"


definition world_inherited_unix :: world where
  "world_inherited_unix = ListenAndServe os_unix world_graceful"

definition world_listening :: world where
  "world_listening = snd (InitListener os_example world_example)"

section \<open>Properties\<close>

subsection \<open>What the operations leave alone\<close>

lemma spawnEnvs_append: "spawnEnvs (xs @ ys) = spawnEnvs xs @ spawnEnvs ys"
  by (induction xs rule: spawnEnvs.induct) auto

lemma startNewProcess_frame:
  "srv (snd (startNewProcess os w)) = srv w \<and> heap (snd (startNewProcess os w)) = heap w
   \<and> next_addr (snd (startNewProcess os w)) = next_addr w
   \<and> main (snd (startNewProcess os w)) = main w
   \<and> router (snd (startNewProcess os w)) = router w
   \<and> published (snd (startNewProcess os w)) = published w"
  by (simp add: startNewProcess_def getTCPListenerFd_def Let_def
      split: option.splits listener.splits sum.splits list.splits)



lemma startNewProcess_Panic_trace:
  "fst (startNewProcess os w) = Panic m \<Longrightarrow>
   spawnEnvs (trace (snd (startNewProcess os w))) = spawnEnvs (trace w)"
  by (auto simp: startNewProcess_def getTCPListenerFd_def Let_def spawnEnvs_append
      split: option.splits listener.splits sum.splits list.splits)

lemma shutdownHTTPServer_frame:
  "main (shutdownHTTPServer os w) = main w \<and> published (shutdownHTTPServer os w) = published w
   \<and> srv (shutdownHTTPServer os w) = srv w \<and> heap (shutdownHTTPServer os w) = heap w
   \<and> trace (shutdownHTTPServer os w) = trace w @ [HttpShutdown]"
  by (simp add: shutdownHTTPServer_def split: option.splits)

lemma shutdownHTTPServer_router:
  "router (shutdownHTTPServer os w) =
     (case http_Shutdown os (trace w) of None \<Rightarrow> SendShutdownChan | Some err \<Rightarrow> router w)"
  by (simp add: shutdownHTTPServer_def split: option.splits)

lemma handleSignal_frame:
  "main (handleSignal os sig w) = main w \<and> published (handleSignal os sig w) = published w
   \<and> srv (handleSignal os sig w) = srv w \<and> heap (handleSignal os sig w) = heap w"
proof -
  obtain r w1 where sp: "startNewProcess os w = (r, w1)" by (cases "startNewProcess os w")
  have f: "main w1 = main w" "published w1 = published w" "srv w1 = srv w" "heap w1 = heap w"
    using startNewProcess_frame [of os w] sp by simp_all
  show ?thesis
    by (cases r) (simp_all add: handleSignal_def sp shutdownHTTPServer_frame f)
qed

lemma step_cases:
  assumes "step os ev w = Some w'"
  shows "(main w' = main w \<and> published w' = published w)
       \<or> (\<exists>l e. main w = ServerServe l \<and> main w' = AwaitShutdownChan e \<and> published w' = published w
            \<and> router w' = router w)
       \<or> (\<exists>e. main w = AwaitShutdownChan e \<and> router w = SendShutdownChan \<and> main w' = Returned e
            \<and> published w' = Suc (published w) \<and> router w' = AwaitSignal)"
  using assms
  by (auto simp: step_def handleSignal_frame split: if_splits event.splits main_pc.splits)

subsection \<open>The environment of a successor\<close>






subsection \<open>Runs of the two goroutines\<close>

lemma serving_returned: "serving w \<Longrightarrow> \<not> returned w"
  by (simp add: serving_def returned_def split: main_pc.splits)

lemma Serve_fields:
  "serving (Serve w) \<and> published (Serve w) = published w \<and> router (Serve w) = AwaitSignal
   \<and> trace (Serve w) = trace w \<and> srv (Serve w) = srv w \<and> heap (Serve w) = heap w"
  by (simp add: Serve_def serving_def)


lemma shutdownHTTPServer_drain_fails:
  assumes "\<forall>h. http_Shutdown os h \<noteq> None"
  shows "router (shutdownHTTPServer os v) = router v"
proof -
  from assms obtain e where "http_Shutdown os (trace v) = Some e" by fastforce
  then show ?thesis by (simp add: shutdownHTTPServer_router)
qed

lemma handleSignal_router_drain_fails:
  assumes "\<forall>h. http_Shutdown os h \<noteq> None"
  shows "router (handleSignal os sig w) = router w \<or> crashed (handleSignal os sig w)"
proof -
  obtain r w1 where sp: "startNewProcess os w = (r, w1)" by (cases "startNewProcess os w")
  have f: "router w1 = router w" using startNewProcess_frame [of os w] sp by simp
  show ?thesis
    by (cases r)
       (simp_all add: handleSignal_def sp shutdownHTTPServer_drain_fails [OF assms] f crashed_def)
qed

lemma step_stuck:
  "returned w \<Longrightarrow> router w = SendShutdownChan \<Longrightarrow> step os ev w = None"
  by (simp add: step_def returned_def split: event.splits main_pc.splits)

lemma step_published:
  assumes "step os ev w = Some w'"
  shows "(serving w \<longrightarrow> (serving w' \<and> published w' = published w)
                        \<or> (returned w' \<and> published w' = Suc (published w)))
       \<and> (returned w \<longrightarrow> returned w' \<and> published w' = published w)"
  using step_cases [OF assms]
  by (auto simp: serving_def returned_def)

lemma run_published:
  "run os evs w = Some w' \<Longrightarrow>
     (serving w \<longrightarrow> (serving w' \<and> published w' = published w)
                    \<or> (returned w' \<and> published w' = Suc (published w)))
   \<and> (returned w \<longrightarrow> returned w' \<and> published w' = published w)"
proof (induction evs arbitrary: w)
  case Nil
  then show ?case by simp
next
  case (Cons ev evs)
  then obtain v where s: "step os ev w = Some v" and r: "run os evs v = Some w'"
    by (auto split: option.splits)
  from step_published [OF s] Cons.IH [OF r] show ?case by auto
qed



lemma step_drain_fails:
  assumes "step os ev w = Some w'" and "\<forall>h. http_Shutdown os h \<noteq> None"
    and "serving w" and "router w \<noteq> SendShutdownChan"
  shows "serving w' \<and> router w' \<noteq> SendShutdownChan \<and> published w' = published w"
proof (cases ev)
  case (Signal sig)
  with assms handleSignal_router_drain_fails [OF assms(2), of sig w] show ?thesis
    by (auto simp: step_def crashed_def handleSignal_frame serving_def
        split: if_splits router_pc.splits)
next
  case (ServerServeReturns e)
  with assms show ?thesis by (auto simp: step_def serving_def split: if_splits main_pc.splits)
next
  case ShutdownChanTransfer
  with assms show ?thesis by (auto simp: step_def split: if_splits main_pc.splits)
qed

lemma run_drain_fails:
  "run os evs w = Some w' \<Longrightarrow> \<forall>h. http_Shutdown os h \<noteq> None \<Longrightarrow>
   serving w \<Longrightarrow> router w \<noteq> SendShutdownChan \<Longrightarrow>
   serving w' \<and> router w' \<noteq> SendShutdownChan \<and> published w' = published w"
proof (induction evs arbitrary: w)
  case Nil
  then show ?case by simp
next
  case (Cons ev evs)
  then obtain v where s: "step os ev w = Some v" and r: "run os evs v = Some w'"
    by (auto split: option.splits)
  from step_drain_fails [OF s Cons.prems(2) Cons.prems(3) Cons.prems(4)]
  have v: "serving v" "router v \<noteq> SendShutdownChan" "published v = published w" by simp_all
  from Cons.IH [OF r Cons.prems(2) v(1) v(2)] v(3) show ?case by simp
qed

subsection \<open>Evaluation\<close>


lemma Serve_world_listening:
  "Serve world_listening =
     \<lparr>srv = \<lparr>Addr = '':8080'', TLSConfig = None, listener = Some (TCPListener 7),
             tlsListener = None, isGraceful = False\<rparr>,
      heap = (\<lambda>a. zero_config), next_addr = 0, trace = [NetListen '':8080''],
      main = ServerServe (Plain (Some (TCPListener 7))), router = AwaitSignal, published = 0\<rparr>"
  by (simp add: world_listening_def GRACEFUL_LISTENER_FD_def zero_config_def os_example_def
      world_example_def getNetListener_def InitListener_def Serve_def)

section \<open>The claims\<close>

subsection \<open>C1: the marker in the environment of a successor\<close>




subsection \<open>C5 and C8: listener acquisition\<close>

lemma InitListener_held: "listener (srv w) = Some ln \<Longrightarrow> InitListener os w = (Inr ln, w)"
  by (simp add: InitListener_def)

lemma InitListener_Inr:
  "fst (InitListener os w) = Inr ln \<Longrightarrow> listener (srv (snd (InitListener os w))) = Some ln"
  by (auto simp: InitListener_def getNetListener_def split: option.splits if_splits sum.splits)

lemma InitListener_frame:
  "heap (snd (InitListener os w)) = heap w \<and> next_addr (snd (InitListener os w)) = next_addr w
   \<and> main (snd (InitListener os w)) = main w \<and> router (snd (InitListener os w)) = router w
   \<and> published (snd (InitListener os w)) = published w
   \<and> Addr (srv (snd (InitListener os w))) = Addr (srv w)
   \<and> TLSConfig (srv (snd (InitListener os w))) = TLSConfig (srv w)
   \<and> tlsListener (srv (snd (InitListener os w))) = tlsListener (srv w)
   \<and> isGraceful (srv (snd (InitListener os w))) = isGraceful (srv w)"
  by (simp add: InitListener_def getNetListener_def split: option.splits sum.splits)

text \<open>
  C8. Once \<open>InitListener\<close> has succeeded, every later call, whatever the operating
  system would answer then, returns the same listener and leaves the whole state as it
  is: the trace gets no new call, so nothing is bound or reconstructed again.
\<close>

theorem C8_InitListener_idempotent:
  assumes "fst (InitListener os w) = Inr ln"
  shows "InitListener os' (snd (InitListener os w)) = (Inr ln, snd (InitListener os w))
       \<and> ((\<lambda>v. snd (InitListener os' v)) ^^ n) (snd (InitListener os w)) = snd (InitListener os w)
       \<and> trace (snd (InitListener os' (snd (InitListener os w)))) = trace (snd (InitListener os w))"
proof -
  have once: "InitListener os' (snd (InitListener os w)) = (Inr ln, snd (InitListener os w))"
    using InitListener_Inr [OF assms] by (rule InitListener_held)
  have "((\<lambda>v. snd (InitListener os' v)) ^^ n) (snd (InitListener os w)) = snd (InitListener os w)"
    by (induction n) (simp_all add: once)
  with once show ?thesis by simp
qed

theorem C8_InitListener_idempotent_witness:
  "fst (InitListener os_example world_example) = Inr (TCPListener 7)
   \<and> fst (InitListener os_spawn_fails (snd (InitListener os_example world_example)))
       = Inr (TCPListener 7)
   \<and> trace (snd (InitListener os_spawn_fails (snd (InitListener os_example world_example))))
       = [NetListen '':8080'']"
proof -
  have h: "fst (InitListener os_example world_example) = Inr (TCPListener 7)"
    by (simp add: GRACEFUL_LISTENER_FD_def zero_config_def os_example_def os_spawn_fails_def
        world_example_def getNetListener_def InitListener_def)
  have t: "trace (snd (InitListener os_example world_example)) = [NetListen '':8080'']"
    by (simp add: GRACEFUL_LISTENER_FD_def zero_config_def os_example_def os_spawn_fails_def
        world_example_def getNetListener_def InitListener_def)
  from C8_InitListener_idempotent [OF h, of os_spawn_fails 1] h t show ?thesis by simp
qed

text \<open>
  C5, as stated, fails. \<open>InitListener\<close> tests \<open>srv.Addr == ""\<close> before it calls
  \<open>getNetListener\<close>, whatever \<open>isGraceful\<close> is: a graceful server with an empty address
  gets the error \<open>listen to nil addr\<close> although the inherited slot holds a listening
  socket, and the slot is never looked at.
\<close>

theorem C5_graceful_empty_address_counterexample:
  "isGraceful (srv world_graceful_noaddr)
   \<and> net_FileListener os_example (trace world_graceful_noaddr) GRACEFUL_LISTENER_FD
       = Inr (TCPListener 7)
   \<and> InitListener os_example world_graceful_noaddr
       = (Inl ''listen to nil addr'', world_graceful_noaddr)"
  by (simp add: GRACEFUL_LISTENER_FD_def zero_config_def os_example_def world_example_def
      world_graceful_noaddr_def getNetListener_def InitListener_def)

text \<open>
  C5, amended. For a server that holds no listener yet, the empty-address check comes
  first on both paths: with an empty address \<open>InitListener\<close> fails with
  \<open>listen to nil addr\<close> and makes no call. With a non-empty address, a graceful server
  reconstructs the listener from descriptor 3 and the address is not passed to any call;
  a server that is not graceful binds the address.
\<close>

theorem C5_address_checked_first:
  assumes "listener (srv w) = None"
  shows "(Addr (srv w) = [] \<longrightarrow> InitListener os w = (Inl ''listen to nil addr'', w))
       \<and> (Addr (srv w) \<noteq> [] \<and> isGraceful (srv w) \<longrightarrow>
            trace (snd (InitListener os w)) = trace w @ [NetFileListener GRACEFUL_LISTENER_FD]
          \<and> fst (InitListener os w) =
              (case net_FileListener os (trace w) GRACEFUL_LISTENER_FD of
                 Inl err \<Rightarrow> Inl (''net.FileListener error: '' @ err)
               | Inr ln \<Rightarrow> Inr ln))
       \<and> (Addr (srv w) \<noteq> [] \<and> \<not> isGraceful (srv w) \<longrightarrow>
            trace (snd (InitListener os w)) = trace w @ [NetListen (Addr (srv w))]
          \<and> fst (InitListener os w) =
              (case net_Listen os (trace w) (Addr (srv w)) of
                 Inl err \<Rightarrow> Inl (''net.Listen error: '' @ err)
               | Inr s \<Rightarrow> Inr (TCPListener s)))"
  using assms by (simp add: InitListener_def getNetListener_def split: sum.splits)

theorem C5_address_checked_first_witness:
  "listener (srv world_graceful_noaddr) = None \<and> Addr (srv world_graceful_noaddr) = []
   \<and> InitListener os_example world_graceful_noaddr
       = (Inl ''listen to nil addr'', world_graceful_noaddr)
   \<and> listener (srv world_graceful) = None \<and> Addr (srv world_graceful) \<noteq> []
   \<and> isGraceful (srv world_graceful)
   \<and> trace (snd (InitListener os_example world_graceful)) = [NetFileListener 3]
   \<and> fst (InitListener os_example world_graceful) = Inr (TCPListener 7)
   \<and> listener (srv world_example) = None \<and> Addr (srv world_example) \<noteq> []
   \<and> \<not> isGraceful (srv world_example)
   \<and> trace (snd (InitListener os_example world_example)) = [NetListen '':8080'']
   \<and> fst (InitListener os_example world_example) = Inr (TCPListener 7)"
proof -
  have n: "listener (srv world_graceful_noaddr) = None" "Addr (srv world_graceful_noaddr) = []"
    by (simp_all add: os_example_def world_example_def world_graceful_def
        world_graceful_noaddr_def)
  have g: "listener (srv world_graceful) = None" "Addr (srv world_graceful) \<noteq> []"
    "isGraceful (srv world_graceful)" "trace world_graceful = []"
    by (simp_all add: os_example_def world_example_def world_graceful_def
        world_graceful_noaddr_def)
  have c: "listener (srv world_example) = None" "Addr (srv world_example) \<noteq> []"
    "\<not> isGraceful (srv world_example)" "trace world_example = []"
    "Addr (srv world_example) = '':8080''"
    by (simp_all add: os_example_def world_example_def world_graceful_def
        world_graceful_noaddr_def)
  have o: "net_FileListener os_example [] GRACEFUL_LISTENER_FD = Inr (TCPListener 7)"
    "net_Listen os_example [] '':8080'' = Inr 7" "GRACEFUL_LISTENER_FD = 3"
    by (simp_all add: os_example_def world_example_def world_graceful_def
        world_graceful_noaddr_def GRACEFUL_LISTENER_FD_def zero_config_def)
  from C5_address_checked_first [OF n(1), of os_example] n
  have 1: "InitListener os_example world_graceful_noaddr
       = (Inl ''listen to nil addr'', world_graceful_noaddr)" by simp
  from C5_address_checked_first [OF g(1), of os_example] g o
  have 2: "trace (snd (InitListener os_example world_graceful)) = [NetFileListener 3]
     \<and> fst (InitListener os_example world_graceful) = Inr (TCPListener 7)" by simp
  from C5_address_checked_first [OF c(1), of os_example] c o
  have 3: "trace (snd (InitListener os_example world_example)) = [NetListen '':8080'']
     \<and> fst (InitListener os_example world_example) = Inr (TCPListener 7)" by simp
  from 1 2 3 n g c show ?thesis by simp
qed

subsection \<open>C3 and C4: signal dispatch and process handoff\<close>



text \<open>
  C4 is right about what should happen and the code does something else. A graceful
  server whose descriptor 3 is a Unix-domain listening socket gets a \<open>*net.UnixListener\<close>
  from \<open>net.FileListener\<close>. On \<open>SIGHUP\<close>, \<open>getTCPListenerFd\<close> asserts
  \<open>srv.listener.(*net.TCPListener)\<close> without the two-result form, so it panics: no error
  value reaches \<open>handleSignals\<close>, whose \<open>continue serving\<close> branch is not taken, and the
  process ends. No successor is started.
\<close>

theorem C4_unix_listener_panics:
  "listener (srv world_inherited_unix) = Some (UnixListener 7)
   \<and> main world_inherited_unix = ServerServe (Plain (Some (UnixListener 7)))
   \<and> startNewProcess os_unix world_inherited_unix
       = (Panic ''interface conversion: net.Listener is *net.UnixListener, not *net.TCPListener'',
          world_inherited_unix)
   \<and> map_option router (run os_unix [Signal SIGHUP] world_inherited_unix)
       = Some (Panicked ''interface conversion: net.Listener is *net.UnixListener, not *net.TCPListener'')
   \<and> run os_unix [Signal SIGHUP, ServerServeReturns None] world_inherited_unix = None"
  by (simp add: world_inherited_unix_def GRACEFUL_ENVIRON_STRING_def GRACEFUL_ENVIRON_KEY_def
      GRACEFUL_LISTENER_FD_def zero_config_def os_example_def os_unix_def world_example_def
      world_graceful_def getNetListener_def InitListener_def Serve_def ListenAndServe_def
      getTCPListenerFd_def childEnviron_def startNewProcess_def shutdownHTTPServer_def
      handleSignal_def crashed_def step_def)

subsection \<open>C2, C6 and C7: the completion signal and the life of the signal router\<close>

text \<open>
  C2, as stated, fails. \<open>shutdownHTTPServer\<close> has no guard: every call whose drain
  succeeds goes to the send \<open>srv.shutdownChan \<leftarrow> true\<close>. The channel has no buffer and
  \<open>Serve\<close> receives from it once. After \<open>SIGINT\<close>, the return of \<open>srv.Server.Serve\<close> and
  the transfer, \<open>Serve\<close> has returned; a second \<open>SIGINT\<close> puts \<open>handleSignals\<close> at the
  send again, and the transfer can never happen: the second publication blocks that
  goroutine for good.
\<close>

theorem C2_second_publication_counterexample:
  "map_option main
     (run os_example [Signal SIGINT, ServerServeReturns (Some ''http: Server closed''),
        ShutdownChanTransfer, Signal SIGINT] (Serve world_listening))
     = Some (Returned (Some ''http: Server closed''))
   \<and> map_option router
     (run os_example [Signal SIGINT, ServerServeReturns (Some ''http: Server closed''),
        ShutdownChanTransfer, Signal SIGINT] (Serve world_listening))
     = Some SendShutdownChan
   \<and> map_option published
     (run os_example [Signal SIGINT, ServerServeReturns (Some ''http: Server closed''),
        ShutdownChanTransfer, Signal SIGINT] (Serve world_listening))
     = Some 1
   \<and> run os_example [Signal SIGINT, ServerServeReturns (Some ''http: Server closed''),
        ShutdownChanTransfer, Signal SIGINT, ShutdownChanTransfer] (Serve world_listening)
     = None"
  by (simp add: Serve_world_listening os_example_def step_def crashed_def handleSignal_def
      startNewProcess_def getTCPListenerFd_def childEnviron_def shutdownHTTPServer_def)

text \<open>
  C2, amended. In every state that a run of a serving process reaches, the completion
  signal has been received at most once, and exactly once precisely when \<open>Serve\<close> has
  returned. Every call of \<open>shutdownHTTPServer\<close> whose drain succeeds goes to the send,
  whatever was published before. When \<open>Serve\<close> has returned and \<open>handleSignals\<close> is at
  the send, no step is possible any more: the goroutine stays blocked (it does not panic).
\<close>

theorem C2_completion_published_at_most_once:
  assumes "run os evs (Serve w) = Some w'"
  shows "published w' \<le> Suc (published w)
       \<and> (published w' = Suc (published w)) = returned w'
       \<and> router (shutdownHTTPServer os w')
           = (case http_Shutdown os (trace w') of None \<Rightarrow> SendShutdownChan | Some err \<Rightarrow> router w')
       \<and> (returned w' \<and> router w' = SendShutdownChan \<longrightarrow> run os (ev # evs') w' = None)"
proof -
  from run_published [OF assms] Serve_fields [of w]
  have "(serving w' \<and> published w' = published w)
        \<or> (returned w' \<and> published w' = Suc (published w))" by simp
  then have "published w' \<le> Suc (published w) \<and> (published w' = Suc (published w)) = returned w'"
    using serving_returned [of w'] by auto
  then show ?thesis
    by (simp add: shutdownHTTPServer_router step_stuck)
qed

theorem C2_completion_published_at_most_once_witness:
  "run os_example [Signal SIGINT, ServerServeReturns None, ShutdownChanTransfer, Signal SIGQUIT]
     (Serve world_listening) \<noteq> None
   \<and> published (the (run os_example
        [Signal SIGINT, ServerServeReturns None, ShutdownChanTransfer, Signal SIGQUIT]
        (Serve world_listening))) = 1
   \<and> returned (the (run os_example
        [Signal SIGINT, ServerServeReturns None, ShutdownChanTransfer, Signal SIGQUIT]
        (Serve world_listening)))
   \<and> router (the (run os_example
        [Signal SIGINT, ServerServeReturns None, ShutdownChanTransfer, Signal SIGQUIT]
        (Serve world_listening))) = SendShutdownChan
   \<and> run os_example [ShutdownChanTransfer]
        (the (run os_example
          [Signal SIGINT, ServerServeReturns None, ShutdownChanTransfer, Signal SIGQUIT]
          (Serve world_listening))) = None"
proof -
  define w' where "w' = the (run os_example
        [Signal SIGINT, ServerServeReturns None, ShutdownChanTransfer, Signal SIGQUIT]
        (Serve world_listening))"
  have r: "run os_example
        [Signal SIGINT, ServerServeReturns None, ShutdownChanTransfer, Signal SIGQUIT]
        (Serve world_listening) = Some w'"
    unfolding w'_def by (simp add: Serve_world_listening os_example_def step_def crashed_def
        handleSignal_def startNewProcess_def getTCPListenerFd_def childEnviron_def
        shutdownHTTPServer_def)
  have f: "router w' = SendShutdownChan" "published w' = 1"
    unfolding w'_def by (simp_all add: Serve_world_listening os_example_def step_def crashed_def
        handleSignal_def startNewProcess_def getTCPListenerFd_def childEnviron_def
        shutdownHTTPServer_def)
  have p: "published world_listening = 0"
    by (simp add: world_listening_def GRACEFUL_ENVIRON_STRING_def GRACEFUL_ENVIRON_KEY_def
        GRACEFUL_LISTENER_FD_def zero_config_def os_example_def world_example_def
        getNetListener_def InitListener_def Serve_def getTCPListenerFd_def childEnviron_def
        startNewProcess_def shutdownHTTPServer_def handleSignal_def crashed_def step_def)
  note th = C2_completion_published_at_most_once [OF r, of ShutdownChanTransfer "[]"]
  from th f p have ret: "returned w'" by simp
  from th ret f have stuck: "run os_example [ShutdownChanTransfer] w' = None" by blast
  from r f ret stuck show ?thesis unfolding w'_def [symmetric] by simp
qed




text \<open>
  C7, as stated, fails in its "never". A drain that returns an error publishes nothing,
  and \<open>Serve\<close> stays at its receive. But \<open>handleSignals\<close> keeps taking signals: when a
  later \<open>SIGINT\<close> leads to a drain without error, the completion signal is published and
  \<open>Serve\<close> returns.
\<close>

theorem C7_later_drain_unblocks_counterexample:
  "http_Shutdown os_drain_fails_once (trace (Serve world_listening)) = Some ''close: bad descriptor''
   \<and> map_option main
       (run os_drain_fails_once [Signal SIGINT, ServerServeReturns (Some ''accept: closed'')]
          (Serve world_listening))
     = Some (AwaitShutdownChan (Some ''accept: closed''))
   \<and> map_option published
       (run os_drain_fails_once [Signal SIGINT, ServerServeReturns (Some ''accept: closed'')]
          (Serve world_listening))
     = Some 0
   \<and> map_option main
       (run os_drain_fails_once [Signal SIGINT, ServerServeReturns (Some ''accept: closed''),
          Signal SIGINT, ShutdownChanTransfer] (Serve world_listening))
     = Some (Returned (Some ''accept: closed''))
   \<and> map_option published
       (run os_drain_fails_once [Signal SIGINT, ServerServeReturns (Some ''accept: closed''),
          Signal SIGINT, ShutdownChanTransfer] (Serve world_listening))
     = Some 1"
  by (simp add: Serve_world_listening os_drain_fails_once_def os_example_def step_def crashed_def
      handleSignal_def startNewProcess_def getTCPListenerFd_def childEnviron_def
      shutdownHTTPServer_def)

text \<open>
  C7, amended. A call of \<open>shutdownHTTPServer\<close> whose drain returns an error only calls
  \<open>srv.Shutdown\<close>: it does not go to the send, and nothing else changes. As long as every
  drain returns an error, in every state that a run of a serving process reaches the
  completion signal has not been published and \<open>Serve\<close> has not returned.
\<close>

theorem C7_drain_error_not_published:
  "(http_Shutdown os (trace v) = Some err \<longrightarrow>
      shutdownHTTPServer os v = v\<lparr>trace := trace v @ [HttpShutdown]\<rparr>)
   \<and> ((\<forall>h. http_Shutdown os h \<noteq> None) \<and> run os evs (Serve w) = Some w' \<longrightarrow>
        \<not> returned w' \<and> published w' = published w \<and> router w' \<noteq> SendShutdownChan)"
proof -
  have 1: "http_Shutdown os (trace v) = Some err \<longrightarrow>
      shutdownHTTPServer os v = v\<lparr>trace := trace v @ [HttpShutdown]\<rparr>"
    by (simp add: shutdownHTTPServer_def)
  have 2: "(\<forall>h. http_Shutdown os h \<noteq> None) \<and> run os evs (Serve w) = Some w' \<longrightarrow>
        \<not> returned w' \<and> published w' = published w \<and> router w' \<noteq> SendShutdownChan"
  proof
    assume a: "(\<forall>h. http_Shutdown os h \<noteq> None) \<and> run os evs (Serve w) = Some w'"
    have "serving w' \<and> router w' \<noteq> SendShutdownChan \<and> published w' = published (Serve w)"
      by (rule run_drain_fails [of os evs "Serve w" w']) (use a Serve_fields [of w] in simp_all)
    then show "\<not> returned w' \<and> published w' = published w \<and> router w' \<noteq> SendShutdownChan"
      using serving_returned [of w'] Serve_fields [of w] by simp
  qed
  from 1 2 show ?thesis by blast
qed

theorem C7_drain_error_not_published_witness:
  "http_Shutdown os_drain_fails (trace (Serve world_listening)) = Some ''close: bad descriptor''
   \<and> shutdownHTTPServer os_drain_fails (Serve world_listening)
       = (Serve world_listening)\<lparr>trace := trace (Serve world_listening) @ [HttpShutdown]\<rparr>
   \<and> run os_drain_fails [Signal SIGINT, ServerServeReturns None, Signal SIGQUIT, Signal SIGHUP]
        (Serve world_listening) \<noteq> None
   \<and> \<not> returned (the (run os_drain_fails
        [Signal SIGINT, ServerServeReturns None, Signal SIGQUIT, Signal SIGHUP]
        (Serve world_listening)))
   \<and> published (the (run os_drain_fails
        [Signal SIGINT, ServerServeReturns None, Signal SIGQUIT, Signal SIGHUP]
        (Serve world_listening))) = 0"
proof -
  define u where "u = the (run os_drain_fails
        [Signal SIGINT, ServerServeReturns None, Signal SIGQUIT, Signal SIGHUP]
        (Serve world_listening))"
  have ru: "run os_drain_fails
        [Signal SIGINT, ServerServeReturns None, Signal SIGQUIT, Signal SIGHUP]
        (Serve world_listening) = Some u"
    unfolding u_def
    by (simp add: Serve_world_listening os_drain_fails_def os_example_def step_def crashed_def
        handleSignal_def startNewProcess_def getTCPListenerFd_def childEnviron_def
        shutdownHTTPServer_def)
  have d: "\<forall>h. http_Shutdown os_drain_fails h \<noteq> None"
    by (simp add: os_drain_fails_def os_example_def)
  have e: "http_Shutdown os_drain_fails (trace (Serve world_listening)) = Some ''close: bad descriptor''"
    by (simp add: os_drain_fails_def os_example_def)
  have p: "published world_listening = 0"
    by (simp add: world_listening_def GRACEFUL_ENVIRON_STRING_def GRACEFUL_ENVIRON_KEY_def
        GRACEFUL_LISTENER_FD_def zero_config_def os_example_def os_drain_fails_def
        world_example_def getNetListener_def InitListener_def Serve_def getTCPListenerFd_def
        childEnviron_def startNewProcess_def shutdownHTTPServer_def handleSignal_def crashed_def
        step_def)
  note th = C7_drain_error_not_published [of os_drain_fails "Serve world_listening"
      "''close: bad descriptor''"
      "[Signal SIGINT, ServerServeReturns None, Signal SIGQUIT, Signal SIGHUP]" world_listening u]
  from th e have 1: "shutdownHTTPServer os_drain_fails (Serve world_listening)
       = (Serve world_listening)\<lparr>trace := trace (Serve world_listening) @ [HttpShutdown]\<rparr>"
    by blast
  from th d ru p have 2: "\<not> returned u \<and> published u = 0" by auto
  from e 1 2 ru show ?thesis unfolding u_def [symmetric] by simp
qed

subsection \<open>C9 and C10: the TLS start\<close>

lemma ListenAndServeTLS_eq:
  "ListenAndServeTLS os certFile keyFile w =
     (case snd (tls_LoadX509KeyPair os (trace w) certFile keyFile) of
        Some e \<Rightarrow> (tlsLoaded os certFile keyFile w)\<lparr>main := Returned (Some e)\<rparr>
      | None \<Rightarrow>
          (case fst (InitListener os (tlsLoaded os certFile keyFile w)) of
             Inl e \<Rightarrow> (snd (InitListener os (tlsLoaded os certFile keyFile w)))
                        \<lparr>main := Returned (Some e)\<rparr>
           | Inr ln \<Rightarrow>
               Serve ((snd (InitListener os (tlsLoaded os certFile keyFile w)))
                 \<lparr>srv := (srv (snd (InitListener os (tlsLoaded os certFile keyFile w))))
                    \<lparr>tlsListener := Some (TLSListener
                        (listener (srv (snd (InitListener os (tlsLoaded os certFile keyFile w)))))
                        (tlsConfigPtr w))\<rparr>\<rparr>)))"
proof -
  obtain cert err where k: "tls_LoadX509KeyPair os (trace w) certFile keyFile = (cert, err)"
    by (cases "tls_LoadX509KeyPair os (trace w) certFile keyFile")
  define H where "H = (heap w)(next_addr w := zero_config)"
  define c where "c = tlsConfigPtr w"
  have w4: "tlsLoaded os certFile keyFile w =
      w\<lparr>next_addr := Suc (next_addr w), heap := H(c := \<lparr>Certificates = [cert],
                 NextProtos = (case NextProtos (H c) of None \<Rightarrow> Some [''h2'', ''http/1.1'']
                               | Some ps \<Rightarrow> Some ps)\<rparr>),
        trace := trace w @ [LoadX509KeyPair certFile keyFile]\<rparr>"
    by (simp add: tlsLoaded_def H_def c_def k)
  have l: "ListenAndServeTLS os certFile keyFile w =
     (let w4 = w\<lparr>next_addr := Suc (next_addr w), heap := H(c := \<lparr>Certificates = [cert],
                 NextProtos = (case NextProtos (H c) of None \<Rightarrow> Some [''h2'', ''http/1.1'']
                               | Some ps \<Rightarrow> Some ps)\<rparr>),
        trace := trace w @ [LoadX509KeyPair certFile keyFile]\<rparr>
      in case err of
           Some e \<Rightarrow> w4\<lparr>main := Returned (Some e)\<rparr>
         | None \<Rightarrow>
             (case InitListener os w4 of
                (Inl e, w5) \<Rightarrow> w5\<lparr>main := Returned (Some e)\<rparr>
              | (Inr ln, w5) \<Rightarrow>
                  Serve (w5\<lparr>srv := (srv w5)
                             \<lparr>tlsListener := Some (TLSListener (listener (srv w5)) c)\<rparr>\<rparr>)))"
  proof -
    obtain cs np where hc: "H c = \<lparr>Certificates = cs, NextProtos = np\<rparr>"
      by (cases "H c") simp
    have c': "(case TLSConfig (srv w) of Some p \<Rightarrow> p | None \<Rightarrow> next_addr w) = c"
      by (simp add: c_def tlsConfigPtr_def)
    show ?thesis
      unfolding ListenAndServeTLS_def Let_def H_def [symmetric]
      by (cases np; cases err)
         (simp_all add: k c' hc cong: prod.case_cong sum.case_cong)
  qed
  show ?thesis
    unfolding l w4 [symmetric] Let_def
    by (cases "InitListener os (tlsLoaded os certFile keyFile w)")
       (simp add: k c_def split: option.splits sum.splits)
qed

lemma tlsLoaded_fields:
  "srv (tlsLoaded os certFile keyFile w) = srv w
   \<and> main (tlsLoaded os certFile keyFile w) = main w
   \<and> router (tlsLoaded os certFile keyFile w) = router w
   \<and> published (tlsLoaded os certFile keyFile w) = published w
   \<and> next_addr (tlsLoaded os certFile keyFile w) = Suc (next_addr w)
   \<and> trace (tlsLoaded os certFile keyFile w) = trace w @ [LoadX509KeyPair certFile keyFile]"
  by (simp add: tlsLoaded_def)

lemma tlsLoaded_heap_config:
  assumes "tlsConfigValid w"
  shows "heap (tlsLoaded os certFile keyFile w) (tlsConfigPtr w) =
     \<lparr>Certificates = [fst (tls_LoadX509KeyPair os (trace w) certFile keyFile)],
      NextProtos =
        (case TLSConfig (srv w) of
           None \<Rightarrow> Some [''h2'', ''http/1.1'']
         | Some p \<Rightarrow> (case NextProtos (heap w p) of
                        None \<Rightarrow> Some [''h2'', ''http/1.1'']
                      | Some ps \<Rightarrow> Some ps))\<rparr>"
  using assms
  by (auto simp: tlsLoaded_def tlsConfigPtr_def tlsConfigValid_def zero_config_def
      split: option.splits)

lemma tlsLoaded_heap_other:
  "q \<noteq> tlsConfigPtr w \<Longrightarrow> q \<noteq> next_addr w \<Longrightarrow>
   heap (tlsLoaded os certFile keyFile w) q = heap w q"
  by (simp add: tlsLoaded_def)

lemma ListenAndServeTLS_heap:
  "heap (ListenAndServeTLS os certFile keyFile w) = heap (tlsLoaded os certFile keyFile w)"
  by (simp add: ListenAndServeTLS_eq Serve_def InitListener_frame split: option.splits sum.splits)

lemma ListenAndServeTLS_cert_error:
  assumes "snd (tls_LoadX509KeyPair os (trace w) certFile keyFile) = Some e"
  shows "ListenAndServeTLS os certFile keyFile w
           = (tlsLoaded os certFile keyFile w)\<lparr>main := Returned (Some e)\<rparr>"
  by (simp add: ListenAndServeTLS_eq assms)

lemma ListenAndServeTLS_serving:
  assumes "serving (ListenAndServeTLS os certFile keyFile w)"
  shows "\<exists>ln. fst (InitListener os (tlsLoaded os certFile keyFile w)) = Inr ln
     \<and> snd (tls_LoadX509KeyPair os (trace w) certFile keyFile) = None
     \<and> ListenAndServeTLS os certFile keyFile w =
         Serve ((snd (InitListener os (tlsLoaded os certFile keyFile w)))
           \<lparr>srv := (srv (snd (InitListener os (tlsLoaded os certFile keyFile w))))
              \<lparr>tlsListener := Some (TLSListener (Some ln) (tlsConfigPtr w))\<rparr>\<rparr>)"
proof (cases "snd (tls_LoadX509KeyPair os (trace w) certFile keyFile)")
  case (Some e)
  with assms show ?thesis by (simp add: ListenAndServeTLS_eq serving_def)
next
  case None
  show ?thesis
  proof (cases "fst (InitListener os (tlsLoaded os certFile keyFile w))")
    case (Inl e)
    with None assms show ?thesis by (simp add: ListenAndServeTLS_eq serving_def)
  next
    case (Inr ln)
    with None InitListener_Inr [OF Inr] show ?thesis by (simp add: ListenAndServeTLS_eq)
  qed
qed

lemma ListenAndServeTLS_listener_kept:
  assumes "listener (srv w) = Some l0"
  shows "listener (srv (ListenAndServeTLS os certFile keyFile w)) = Some l0
       \<and> trace (ListenAndServeTLS os certFile keyFile w)
           = trace w @ [LoadX509KeyPair certFile keyFile]"
proof -
  have "listener (srv (tlsLoaded os certFile keyFile w)) = Some l0"
    using assms by (simp add: tlsLoaded_fields)
  then have "InitListener os (tlsLoaded os certFile keyFile w)
      = (Inr l0, tlsLoaded os certFile keyFile w)"
    by (rule InitListener_held)
  then show ?thesis
    using assms
    by (simp add: ListenAndServeTLS_eq Serve_def tlsLoaded_fields split: option.splits)
qed

lemma ListenAndServeTLS_wrapped:
  assumes "serving (ListenAndServeTLS os certFile keyFile w)"
  shows "listener (srv (ListenAndServeTLS os certFile keyFile w)) \<noteq> None
       \<and> tlsListener (srv (ListenAndServeTLS os certFile keyFile w))
           = Some (TLSListener (listener (srv (ListenAndServeTLS os certFile keyFile w)))
                     (tlsConfigPtr w))
       \<and> main (ListenAndServeTLS os certFile keyFile w)
           = ServerServe (Secure (TLSListener
               (listener (srv (ListenAndServeTLS os certFile keyFile w))) (tlsConfigPtr w)))
       \<and> trace (ListenAndServeTLS os certFile keyFile w)
           = trace (snd (InitListener os (tlsLoaded os certFile keyFile w)))"
proof -
  let ?w' = "ListenAndServeTLS os certFile keyFile w"
  from ListenAndServeTLS_serving [OF assms] obtain ln where
    ln: "fst (InitListener os (tlsLoaded os certFile keyFile w)) = Inr ln"
    and eq: "?w' = Serve ((snd (InitListener os (tlsLoaded os certFile keyFile w)))
         \<lparr>srv := (srv (snd (InitListener os (tlsLoaded os certFile keyFile w))))
            \<lparr>tlsListener := Some (TLSListener (Some ln) (tlsConfigPtr w))\<rparr>\<rparr>)"
    by blast
  show ?thesis
    unfolding eq using InitListener_Inr [OF ln] by (simp add: Serve_def)
qed

text \<open>
  C9. After \<open>ListenAndServeTLS\<close>, whatever its outcome, the negotiation list of the
  configuration it worked on is the default list \<open>h2, http/1.1\<close> exactly when the server
  had no configuration or its configuration had a nil list; a list the caller supplied,
  even an empty one, is left as it was. When the start succeeds, the server still holds
  a plain listener, the TLS listener wraps that very listener with that configuration,
  and \<open>srv.Server.Serve\<close> runs on the TLS listener; the wrapping makes no call on the
  plain listener (the trace is the one after the certificate was loaded and the listener
  acquired). A plain listener held before the call is still held after it, and then the
  only call made is the loading of the key pair.
\<close>

theorem C9_negotiation_defaults_and_wrapping:
  assumes "tlsConfigValid w"
  shows "NextProtos (heap (ListenAndServeTLS os certFile keyFile w) (tlsConfigPtr w)) =
           (case TLSConfig (srv w) of
              None \<Rightarrow> Some [''h2'', ''http/1.1'']
            | Some p \<Rightarrow> (case NextProtos (heap w p) of
                           None \<Rightarrow> Some [''h2'', ''http/1.1'']
                         | Some ps \<Rightarrow> Some ps))
       \<and> (serving (ListenAndServeTLS os certFile keyFile w) \<longrightarrow>
            listener (srv (ListenAndServeTLS os certFile keyFile w)) \<noteq> None
          \<and> tlsListener (srv (ListenAndServeTLS os certFile keyFile w))
              = Some (TLSListener (listener (srv (ListenAndServeTLS os certFile keyFile w)))
                        (tlsConfigPtr w))
          \<and> main (ListenAndServeTLS os certFile keyFile w)
              = ServerServe (Secure (TLSListener
                  (listener (srv (ListenAndServeTLS os certFile keyFile w))) (tlsConfigPtr w)))
          \<and> trace (ListenAndServeTLS os certFile keyFile w)
              = trace (snd (InitListener os (tlsLoaded os certFile keyFile w))))
       \<and> (listener (srv w) \<noteq> None \<longrightarrow>
            listener (srv (ListenAndServeTLS os certFile keyFile w)) = listener (srv w)
          \<and> trace (ListenAndServeTLS os certFile keyFile w)
              = trace w @ [LoadX509KeyPair certFile keyFile])"
proof -
  let ?w' = "ListenAndServeTLS os certFile keyFile w"
  have 1: "NextProtos (heap ?w' (tlsConfigPtr w)) =
           (case TLSConfig (srv w) of
              None \<Rightarrow> Some [''h2'', ''http/1.1'']
            | Some p \<Rightarrow> (case NextProtos (heap w p) of
                           None \<Rightarrow> Some [''h2'', ''http/1.1'']
                         | Some ps \<Rightarrow> Some ps))"
    by (simp add: ListenAndServeTLS_heap tlsLoaded_heap_config [OF assms])
  have 2: "serving ?w' \<longrightarrow>
            listener (srv ?w') \<noteq> None
          \<and> tlsListener (srv ?w') = Some (TLSListener (listener (srv ?w')) (tlsConfigPtr w))
          \<and> main ?w' = ServerServe (Secure (TLSListener (listener (srv ?w')) (tlsConfigPtr w)))
          \<and> trace ?w' = trace (snd (InitListener os (tlsLoaded os certFile keyFile w)))"
    using ListenAndServeTLS_wrapped [of os certFile keyFile w] by blast
  have 3: "listener (srv w) \<noteq> None \<longrightarrow>
            listener (srv ?w') = listener (srv w)
          \<and> trace ?w' = trace w @ [LoadX509KeyPair certFile keyFile]"
    using ListenAndServeTLS_listener_kept [of w _ os certFile keyFile] by auto
  from 1 2 3 show ?thesis by blast
qed

theorem C9_negotiation_defaults_and_wrapping_witness:
  "tlsConfigValid world_tls
   \<and> NextProtos (heap (ListenAndServeTLS os_example ''cert.pem'' ''key.pem'' world_tls) 0)
       = Some [''http/1.1'']
   \<and> serving (ListenAndServeTLS os_example ''cert.pem'' ''key.pem'' world_tls)
   \<and> tlsListener (srv (ListenAndServeTLS os_example ''cert.pem'' ''key.pem'' world_tls))
       = Some (TLSListener (Some (TCPListener 7)) 0)
   \<and> tlsConfigValid world_example
   \<and> NextProtos (heap (ListenAndServeTLS os_example ''cert.pem'' ''key.pem'' world_example) 0)
       = Some [''h2'', ''http/1.1'']
   \<and> listener (srv world_listening) = Some (TCPListener 7)
   \<and> listener (srv (ListenAndServeTLS os_example ''cert.pem'' ''key.pem'' world_listening))
       = Some (TCPListener 7)
   \<and> trace (ListenAndServeTLS os_example ''cert.pem'' ''key.pem'' world_listening)
       = [NetListen '':8080'', LoadX509KeyPair ''cert.pem'' ''key.pem'']"
proof -
  have v: "tlsConfigValid world_tls" "tlsConfigValid world_example" "tlsConfigValid world_listening"
    by (simp_all add: tlsConfigValid_def world_listening_def os_example_def world_example_def
        world_tls_def getNetListener_def InitListener_def Serve_def)
  have p: "tlsConfigPtr world_tls = 0" "tlsConfigPtr world_example = 0"
    "TLSConfig (srv world_tls) = Some 0" "TLSConfig (srv world_example) = None"
    "NextProtos (heap world_tls 0) = Some [''http/1.1'']"
    by (simp_all add: tlsConfigPtr_def os_example_def world_example_def world_tls_def)
  have s: "serving (ListenAndServeTLS os_example ''cert.pem'' ''key.pem'' world_tls)"
    "listener (srv (ListenAndServeTLS os_example ''cert.pem'' ''key.pem'' world_tls))
       = Some (TCPListener 7)"
    by (simp_all add: ListenAndServeTLS_def Let_def InitListener_def getNetListener_def Serve_def
        serving_def os_example_def world_example_def world_tls_def GRACEFUL_LISTENER_FD_def
        zero_config_def zero_certificate_def)
  have l: "listener (srv world_listening) = Some (TCPListener 7)"
    "trace world_listening = [NetListen '':8080'']"
    by (simp_all add: world_listening_def os_example_def world_example_def world_tls_def
        getNetListener_def InitListener_def Serve_def)
  note t1 = C9_negotiation_defaults_and_wrapping [OF v(1), of os_example "''cert.pem''" "''key.pem''"]
  note t2 = C9_negotiation_defaults_and_wrapping [OF v(2), of os_example "''cert.pem''" "''key.pem''"]
  note t3 = C9_negotiation_defaults_and_wrapping [OF v(3), of os_example "''cert.pem''" "''key.pem''"]
  from t1 p have 1: "NextProtos (heap (ListenAndServeTLS os_example ''cert.pem'' ''key.pem'' world_tls) 0)
       = Some [''http/1.1'']" by simp
  from t1 s p have 2: "tlsListener (srv (ListenAndServeTLS os_example ''cert.pem'' ''key.pem'' world_tls))
       = Some (TLSListener (Some (TCPListener 7)) 0)" by simp
  from t2 p have 3: "NextProtos (heap (ListenAndServeTLS os_example ''cert.pem'' ''key.pem'' world_example) 0)
       = Some [''h2'', ''http/1.1'']" by simp
  from t3 l have 4: "listener (srv (ListenAndServeTLS os_example ''cert.pem'' ''key.pem'' world_listening))
       = Some (TCPListener 7)
     \<and> trace (ListenAndServeTLS os_example ''cert.pem'' ''key.pem'' world_listening)
       = [NetListen '':8080'', LoadX509KeyPair ''cert.pem'' ''key.pem'']" by simp
  from v 1 2 3 4 s(1) l(1) show ?thesis by blast
qed

text \<open>
  C10. When the server has a configuration, at a valid address \<open>p\<close>, \<open>ListenAndServeTLS\<close>
  writes to that object: afterwards its certificate list is the one certificate that
  \<open>tls.LoadX509KeyPair\<close> returned, and its negotiation list is the default list when it
  was nil and unchanged otherwise. \<open>srv.TLSConfig\<close> still points to it, every other
  allocated configuration is unchanged, and the TLS listener of a successful start holds
  the pointer \<open>p\<close> itself, not a copy. When loading the key pair fails,
  \<open>ListenAndServeTLS\<close> returns that error, the only call made is the loading, and the
  server, its listener included, is as before: nothing was bound.
\<close>

theorem C10_caller_config_mutated_in_place:
  "(TLSConfig (srv w) = Some p \<and> p < next_addr w \<longrightarrow>
        Certificates (heap (ListenAndServeTLS os certFile keyFile w) p)
          = [fst (tls_LoadX509KeyPair os (trace w) certFile keyFile)]
      \<and> NextProtos (heap (ListenAndServeTLS os certFile keyFile w) p)
          = (case NextProtos (heap w p) of
               None \<Rightarrow> Some [''h2'', ''http/1.1'']
             | Some ps \<Rightarrow> Some ps)
      \<and> TLSConfig (srv (ListenAndServeTLS os certFile keyFile w)) = Some p
      \<and> (q \<noteq> p \<and> q < next_addr w \<longrightarrow>
            heap (ListenAndServeTLS os certFile keyFile w) q = heap w q)
      \<and> (serving (ListenAndServeTLS os certFile keyFile w) \<longrightarrow>
            tlsListener (srv (ListenAndServeTLS os certFile keyFile w))
              = Some (TLSListener (listener (srv (ListenAndServeTLS os certFile keyFile w))) p)))
   \<and> (snd (tls_LoadX509KeyPair os (trace w) certFile keyFile) = Some e \<longrightarrow>
        main (ListenAndServeTLS os certFile keyFile w) = Returned (Some e)
      \<and> trace (ListenAndServeTLS os certFile keyFile w)
          = trace w @ [LoadX509KeyPair certFile keyFile]
      \<and> srv (ListenAndServeTLS os certFile keyFile w) = srv w)"
proof -
  let ?w' = "ListenAndServeTLS os certFile keyFile w"
  have A: "TLSConfig (srv w) = Some p \<and> p < next_addr w \<longrightarrow>
        Certificates (heap ?w' p) = [fst (tls_LoadX509KeyPair os (trace w) certFile keyFile)]
      \<and> NextProtos (heap ?w' p)
          = (case NextProtos (heap w p) of
               None \<Rightarrow> Some [''h2'', ''http/1.1'']
             | Some ps \<Rightarrow> Some ps)
      \<and> TLSConfig (srv ?w') = Some p
      \<and> (q \<noteq> p \<and> q < next_addr w \<longrightarrow> heap ?w' q = heap w q)
      \<and> (serving ?w' \<longrightarrow>
            tlsListener (srv ?w') = Some (TLSListener (listener (srv ?w')) p))"
  proof
    assume a: "TLSConfig (srv w) = Some p \<and> p < next_addr w"
    then have v: "tlsConfigValid w" and c: "tlsConfigPtr w = p"
      by (simp_all add: tlsConfigValid_def tlsConfigPtr_def)
    have h: "heap ?w' p =
        \<lparr>Certificates = [fst (tls_LoadX509KeyPair os (trace w) certFile keyFile)],
         NextProtos = (case NextProtos (heap w p) of
               None \<Rightarrow> Some [''h2'', ''http/1.1'']
             | Some ps \<Rightarrow> Some ps)\<rparr>"
      using tlsLoaded_heap_config [OF v, of os certFile keyFile] a
      by (simp add: ListenAndServeTLS_heap c)
    have t: "TLSConfig (srv ?w') = Some p"
      using a
      by (simp add: ListenAndServeTLS_eq Serve_def InitListener_frame tlsLoaded_fields
          split: option.splits sum.splits)
    have o: "q \<noteq> p \<and> q < next_addr w \<longrightarrow> heap ?w' q = heap w q"
      using tlsLoaded_heap_other [of q w os certFile keyFile]
      by (simp add: ListenAndServeTLS_heap c)
    have s: "serving ?w' \<longrightarrow>
            tlsListener (srv ?w') = Some (TLSListener (listener (srv ?w')) p)"
      using ListenAndServeTLS_wrapped [of os certFile keyFile w] c by simp
    from h t o s show "Certificates (heap ?w' p) = [fst (tls_LoadX509KeyPair os (trace w) certFile keyFile)]
      \<and> NextProtos (heap ?w' p)
          = (case NextProtos (heap w p) of
               None \<Rightarrow> Some [''h2'', ''http/1.1'']
             | Some ps \<Rightarrow> Some ps)
      \<and> TLSConfig (srv ?w') = Some p
      \<and> (q \<noteq> p \<and> q < next_addr w \<longrightarrow> heap ?w' q = heap w q)
      \<and> (serving ?w' \<longrightarrow>
            tlsListener (srv ?w') = Some (TLSListener (listener (srv ?w')) p))"
      by simp
  qed
  have B: "snd (tls_LoadX509KeyPair os (trace w) certFile keyFile) = Some e \<longrightarrow>
        main ?w' = Returned (Some e)
      \<and> trace ?w' = trace w @ [LoadX509KeyPair certFile keyFile]
      \<and> srv ?w' = srv w"
    by (simp add: ListenAndServeTLS_cert_error tlsLoaded_fields)
  from A B show ?thesis by blast
qed

theorem C10_caller_config_mutated_in_place_witness:
  "TLSConfig (srv world_tls) = Some 0 \<and> 0 < next_addr world_tls
   \<and> Certificates (heap (ListenAndServeTLS os_example ''cert.pem'' ''key.pem'' world_tls) 0)
       = [''pair'']
   \<and> NextProtos (heap (ListenAndServeTLS os_example ''cert.pem'' ''key.pem'' world_tls) 0)
       = Some [''http/1.1'']
   \<and> heap (ListenAndServeTLS os_example ''cert.pem'' ''key.pem'' world_tls) 1
       = \<lparr>Certificates = [''old''], NextProtos = None\<rparr>
   \<and> serving (ListenAndServeTLS os_example ''cert.pem'' ''key.pem'' world_tls)
   \<and> tlsListener (srv (ListenAndServeTLS os_example ''cert.pem'' ''key.pem'' world_tls))
       = Some (TLSListener (Some (TCPListener 7)) 0)
   \<and> TLSConfig (srv world_tls_noprotos) = Some 1 \<and> 1 < next_addr world_tls_noprotos
   \<and> NextProtos (heap (ListenAndServeTLS os_example ''cert.pem'' ''key.pem'' world_tls_noprotos) 1)
       = Some [''h2'', ''http/1.1'']
   \<and> snd (tls_LoadX509KeyPair os_bad_cert (trace world_tls) ''cert.pem'' ''key.pem'')
       = Some ''open cert.pem: no such file or directory''
   \<and> main (ListenAndServeTLS os_bad_cert ''cert.pem'' ''key.pem'' world_tls)
       = Returned (Some ''open cert.pem: no such file or directory'')
   \<and> trace (ListenAndServeTLS os_bad_cert ''cert.pem'' ''key.pem'' world_tls)
       = [LoadX509KeyPair ''cert.pem'' ''key.pem'']
   \<and> srv (ListenAndServeTLS os_bad_cert ''cert.pem'' ''key.pem'' world_tls) = srv world_tls"
proof -
  have a: "TLSConfig (srv world_tls) = Some 0" "0 < next_addr world_tls"
    "NextProtos (heap world_tls 0) = Some [''http/1.1'']"
    "heap world_tls 1 = \<lparr>Certificates = [''old''], NextProtos = None\<rparr>"
    "(1::nat) < next_addr world_tls" "trace world_tls = []"
    "fst (tls_LoadX509KeyPair os_example (trace world_tls) ''cert.pem'' ''key.pem'') = ''pair''"
    by (simp_all add: os_example_def os_bad_cert_def world_example_def world_tls_def
        world_tls_noprotos_def)
  have b: "TLSConfig (srv world_tls_noprotos) = Some 1" "1 < next_addr world_tls_noprotos"
    "NextProtos (heap world_tls_noprotos 1) = None"
    by (simp_all add: os_example_def os_bad_cert_def world_example_def world_tls_def
        world_tls_noprotos_def)
  have c: "snd (tls_LoadX509KeyPair os_bad_cert (trace world_tls) ''cert.pem'' ''key.pem'')
       = Some ''open cert.pem: no such file or directory''"
    by (simp add: os_example_def os_bad_cert_def world_example_def world_tls_def
        world_tls_noprotos_def)
  have s: "serving (ListenAndServeTLS os_example ''cert.pem'' ''key.pem'' world_tls)"
    "listener (srv (ListenAndServeTLS os_example ''cert.pem'' ''key.pem'' world_tls))
       = Some (TCPListener 7)"
    by (simp_all add: ListenAndServeTLS_def Let_def InitListener_def getNetListener_def Serve_def
        serving_def os_example_def os_bad_cert_def world_example_def world_tls_def
        world_tls_noprotos_def GRACEFUL_LISTENER_FD_def zero_config_def zero_certificate_def)
  note t1 = C10_caller_config_mutated_in_place
    [of world_tls 0 os_example "''cert.pem''" "''key.pem''" 1]
  note t2 = C10_caller_config_mutated_in_place
    [of world_tls_noprotos 1 os_example "''cert.pem''" "''key.pem''"]
  note t3 = C10_caller_config_mutated_in_place
    [of world_tls _ os_bad_cert "''cert.pem''" "''key.pem''" _
       "''open cert.pem: no such file or directory''"]
  from t1 a have 1:
    "Certificates (heap (ListenAndServeTLS os_example ''cert.pem'' ''key.pem'' world_tls) 0)
       = [''pair'']
     \<and> NextProtos (heap (ListenAndServeTLS os_example ''cert.pem'' ''key.pem'' world_tls) 0)
       = Some [''http/1.1'']
     \<and> heap (ListenAndServeTLS os_example ''cert.pem'' ''key.pem'' world_tls) 1
       = \<lparr>Certificates = [''old''], NextProtos = None\<rparr>"
    by simp
  from t1 a s have 2:
    "tlsListener (srv (ListenAndServeTLS os_example ''cert.pem'' ''key.pem'' world_tls))
       = Some (TLSListener (Some (TCPListener 7)) 0)"
    by simp
  from t2 b have 3:
    "NextProtos (heap (ListenAndServeTLS os_example ''cert.pem'' ''key.pem'' world_tls_noprotos) 1)
       = Some [''h2'', ''http/1.1'']"
    by simp
  from t3 c a(6) have 4:
    "main (ListenAndServeTLS os_bad_cert ''cert.pem'' ''key.pem'' world_tls)
       = Returned (Some ''open cert.pem: no such file or directory'')
     \<and> trace (ListenAndServeTLS os_bad_cert ''cert.pem'' ''key.pem'' world_tls)
       = [LoadX509KeyPair ''cert.pem'' ''key.pem'']
     \<and> srv (ListenAndServeTLS os_bad_cert ''cert.pem'' ''key.pem'' world_tls) = srv world_tls"
    by simp
  from a(1,2) b(1,2) c s(1) 1 2 3 4 show ?thesis by blast
qed

end
